theory Spec2Isabelle
  imports Main "HOL-Library.Char_ord" "HOL-Library.List_Lexorder" "HOL-Library.Multiset"
begin

unbundle bit_operations_syntax

section \<open>Data model\<close>

text \<open>
  The service (\<^verbatim>\<open>src/main.py\<close>) keeps four in-memory dictionaries keyed by UUID and
  serves theatre resources under \<^verbatim>\<open>/theatres\<close>. The Pydantic models it imports
  (\<^verbatim>\<open>models/theatre.py\<close> and its siblings) are not part of the available sources, so
  the resource types are reconstructed from what \<^verbatim>\<open>main.py\<close> does with them.

  Python's \<^verbatim>\<open>str\<close> is modelled by \<^typ>\<open>string\<close>, each \<^typ>\<open>char\<close> standing for the
  code point of the same number (U+0000 to U+00FF). A \<^verbatim>\<open>UUID\<close> is its 128-bit integer
  value, and a \<^verbatim>\<open>datetime\<close> is a naive timestamp (no \<^verbatim>\<open>tzinfo\<close>), which is what
  \<^verbatim>\<open>datetime.utcnow\<close> produces.
\<close>

type_synonym UUID = nat

record datetime =
  year :: nat
  month :: nat
  day :: nat
  hour :: nat
  minute :: nat
  second :: nat
  microsecond :: nat

text \<open>
  Modelled from the spec: the field list of \<^verbatim>\<open>TheatreCreate\<close> and \<^verbatim>\<open>TheatreRead\<close>
  (\<^verbatim>\<open>models/theatre.py\<close> is missing). The keys are the ones \<^verbatim>\<open>list_theatres\<close> fills in
  for its \<^verbatim>\<open>List[TheatreRead]\<close> response (main.py, lines 118 to 130); the spec names the
  business fields "name, address, capacity, contact info" and says absent fields are left out
  of the serialization, so the two contact fields are optional.
  \<^verbatim>\<open>TheatreCreate\<close> has no \<^verbatim>\<open>id\<close>: \<^verbatim>\<open>replace_theatre\<close> passes
  \<^verbatim>\<open>id=theatre_id\<close> next to \<^verbatim>\<open>**theatre.model_dump()\<close>, which Python rejects when a
  keyword is given twice. \<^verbatim>\<open>TheatreRead\<close> adds \<^verbatim>\<open>id\<close>, \<^verbatim>\<open>created_at\<close> and
  \<^verbatim>\<open>updated_at\<close>, each with a default factory, since \<^verbatim>\<open>create_theatre\<close> builds a
  \<^verbatim>\<open>TheatreRead\<close> from the fields of a \<^verbatim>\<open>TheatreCreate\<close> alone.
\<close>

record TheatreCreate =
  name :: string
  address :: string
  city :: string
  state :: string
  postal_code :: string
  country :: string
  phone :: "string option"
  email :: "string option"
  capacity :: int

record TheatreRead = TheatreCreate +
  id' :: UUID
  created_at :: datetime
  updated_at :: datetime

text \<open>
  \<^verbatim>\<open>TheatreRead(**theatre.model_dump())\<close> and
  \<^verbatim>\<open>TheatreRead(id=theatre_id, **theatre.model_dump())\<close>: the business fields are copied,
  \<^verbatim>\<open>id\<close> is the keyword argument when there is one and the value drawn by the default
  factory (\<^verbatim>\<open>uuid4\<close>) otherwise, and the two timestamps are the values their default
  factories read from the clock. The drawn identifier and the two clock readings are inputs
  of the model.
\<close>

definition TheatreRead_init :: "UUID \<Rightarrow> datetime \<Rightarrow> datetime \<Rightarrow> TheatreCreate \<Rightarrow> TheatreRead" where
  "TheatreRead_init uid now_c now_u theatre =
     \<lparr>name = name theatre, address = address theatre, city = city theatre,
      state = state theatre, postal_code = postal_code theatre, country = country theatre,
      phone = phone theatre, email = email theatre, capacity = capacity theatre,
      id' = uid, created_at = now_c, updated_at = now_u\<rparr>"

section \<open>Canonical JSON serialization\<close>

text \<open>
  The dictionary \<^verbatim>\<open>model_dump\<close> returns holds strings, integers, UUIDs, datetimes and
  \<^verbatim>\<open>None\<close>.
\<close>

datatype jvalue = JStr string | JInt int | JUUID UUID | JDatetime datetime | JNone

definition opt_str :: "string option \<Rightarrow> jvalue" where
  "opt_str v = (case v of None \<Rightarrow> JNone | Some s \<Rightarrow> JStr s)"

definition model_dump :: "TheatreRead \<Rightarrow> (string \<times> jvalue) list" where
  "model_dump obj =
     [(''name'', JStr (name obj)), (''address'', JStr (address obj)), (''city'', JStr (city obj)),
      (''state'', JStr (state obj)), (''postal_code'', JStr (postal_code obj)),
      (''country'', JStr (country obj)),
      (''phone'', opt_str (phone obj)), (''email'', opt_str (email obj)),
      (''capacity'', JInt (capacity obj)),
      (''id'', JUUID (id' obj)), (''created_at'', JDatetime (created_at obj)),
      (''updated_at'', JDatetime (updated_at obj))]"

fun is_none :: "jvalue \<Rightarrow> bool" where
  "is_none JNone = True"
| "is_none _ = False"

definition exclude_none :: "(string \<times> jvalue) list \<Rightarrow> (string \<times> jvalue) list" where
  "exclude_none items = filter (\<lambda>kv. \<not> is_none (snd kv)) items"

definition hexchar :: "nat \<Rightarrow> char" where
  "hexchar n = ''0123456789abcdef'' ! (n mod 16)"

text \<open>\<^verbatim>\<open>'{0:0wx}'.format(n)\<close> for a number below \<open>16 ^ w\<close>: \<open>w\<close> lowercase hex digits.\<close>

fun hex_fixed :: "nat \<Rightarrow> nat \<Rightarrow> string" where
  "hex_fixed 0 n = []"
| "hex_fixed (Suc w) n = hex_fixed w (n div 16) @ [hexchar n]"

definition digit :: "nat \<Rightarrow> char" where
  "digit n = ''0123456789'' ! (n mod 10)"

text \<open>\<^verbatim>\<open>'%0wd' % n\<close> for a number below \<open>10 ^ w\<close>: \<open>w\<close> decimal digits.\<close>

fun dec_fixed :: "nat \<Rightarrow> nat \<Rightarrow> string" where
  "dec_fixed 0 n = []"
| "dec_fixed (Suc w) n = dec_fixed w (n div 10) @ [digit n]"

text \<open>\<^verbatim>\<open>str(n)\<close> for a Python integer.\<close>

fun str_nat :: "nat \<Rightarrow> string" where
  "str_nat n = (if n < 10 then [digit n] else str_nat (n div 10) @ [digit n])"

declare str_nat.simps [simp del]

definition str_int :: "int \<Rightarrow> string" where
  "str_int i = (if i < 0 then CHR ''-'' # str_nat (nat (- i)) else str_nat (nat i))"

text \<open>
  \<^verbatim>\<open>str(uuid)\<close>: the 32 hex digits of the integer (\<^verbatim>\<open>'%032x' % self.int\<close>), cut into
  groups of 8, 4, 4, 4 and 12 digits joined by hyphens.
\<close>

definition str_uuid :: "UUID \<Rightarrow> string" where
  "str_uuid u =
     (let h = hex_fixed 32 u
      in take 8 h @ ''-'' @ take 4 (drop 8 h) @ ''-'' @ take 4 (drop 12 h) @ ''-''
         @ take 4 (drop 16 h) @ ''-'' @ drop 20 h)"

text \<open>
  \<^verbatim>\<open>datetime.isoformat()\<close> of a naive datetime: the fraction is printed only when the
  microsecond field is not zero.
\<close>

definition isoformat :: "datetime \<Rightarrow> string" where
  "isoformat d =
     dec_fixed 4 (year d) @ ''-'' @ dec_fixed 2 (month d) @ ''-'' @ dec_fixed 2 (day d) @ ''T''
     @ dec_fixed 2 (hour d) @ '':'' @ dec_fixed 2 (minute d) @ '':'' @ dec_fixed 2 (second d)
     @ (if microsecond d = 0 then [] else ''.'' @ dec_fixed 6 (microsecond d))"

text \<open>
  The string encoder of \<^verbatim>\<open>json.dumps\<close> with \<^verbatim>\<open>ensure_ascii=True\<close> (the default):
  the quote and the backslash are escaped, the five short escapes are used for backspace,
  form feed, newline, carriage return and tab, the printable ASCII characters from space to
  tilde stand for themselves, and every other code point \<open>n\<close> is written as a backslash,
  the letter u and the four hex digits of \<open>n\<close>.
\<close>

definition escape_char :: "char \<Rightarrow> string" where
  "escape_char c =
     (if c = CHR 0x5C then [CHR 0x5C, CHR 0x5C]
      else if c = CHR 0x22 then [CHR 0x5C, CHR 0x22]
      else if c = CHR 0x08 then [CHR 0x5C, CHR ''b'']
      else if c = CHR 0x0C then [CHR 0x5C, CHR ''f'']
      else if c = CHR 0x0A then [CHR 0x5C, CHR ''n'']
      else if c = CHR 0x0D then [CHR 0x5C, CHR ''r'']
      else if c = CHR 0x09 then [CHR 0x5C, CHR ''t'']
      else if 32 \<le> (of_char c :: nat) \<and> (of_char c :: nat) \<le> 126 then [c]
      else [CHR 0x5C, CHR ''u''] @ hex_fixed 4 (of_char c))"

definition encode_basestring_ascii :: "string \<Rightarrow> string" where
  "encode_basestring_ascii s = [CHR 0x22] @ concat (map escape_char s) @ [CHR 0x22]"

text \<open>
  \<^verbatim>\<open>PydanticJSONEncoder.default\<close> turns a datetime into \<^verbatim>\<open>isoformat() + "Z"\<close> and a UUID
  into \<^verbatim>\<open>str(o)\<close>; the encoder then writes the resulting string. \<^verbatim>\<open>None\<close> would be
  written \<^verbatim>\<open>null\<close>.
\<close>

fun encode_value :: "jvalue \<Rightarrow> string" where
  "encode_value (JStr s) = encode_basestring_ascii s"
| "encode_value (JInt i) = str_int i"
| "encode_value (JUUID u) = encode_basestring_ascii (str_uuid u)"
| "encode_value (JDatetime d) = encode_basestring_ascii (isoformat d @ ''Z'')"
| "encode_value JNone = ''null''"

definition encode_item :: "string \<times> jvalue \<Rightarrow> string" where
  "encode_item kv = encode_basestring_ascii (fst kv) @ '':'' @ encode_value (snd kv)"

fun join :: "string \<Rightarrow> string list \<Rightarrow> string" where
  "join sep [] = []"
| "join sep [x] = x"
| "join sep (x # y # ys) = x @ sep @ join sep (y # ys)"

text \<open>
  \<^verbatim>\<open>json.dumps(d, sort_keys=True, separators=(",", ":"))\<close>: the items in ascending key
  order, no whitespace.
\<close>

definition json_dumps :: "(string \<times> jvalue) list \<Rightarrow> string" where
  "json_dumps items = ''{'' @ join '','' (map encode_item (sort_key fst items)) @ ''}''"

text \<open>
  \<^verbatim>\<open>.encode("utf-8")\<close>: the serialization is ASCII only, one byte for each character.
\<close>

definition encode_utf8 :: "string \<Rightarrow> nat list" where
  "encode_utf8 s = map of_char s"

section \<open>SHA-256\<close>

text \<open>
  \<^verbatim>\<open>hashlib.sha256\<close>, after FIPS 180-4. A 32-bit word is a natural number below
  \<open>2 ^ 32\<close>; a sum or a left shift is cut to its low 32 bits with the mask
  \<open>0xffffffff\<close>.
\<close>

type_synonym u32 = nat
type_synonym hstate = "u32 \<times> u32 \<times> u32 \<times> u32 \<times> u32 \<times> u32 \<times> u32 \<times> u32"

definition K256 :: "u32 list" where
  "K256 =
    [0x428a2f98, 0x71374491, 0xb5c0fbcf, 0xe9b5dba5, 0x3956c25b, 0x59f111f1, 0x923f82a4, 0xab1c5ed5,
     0xd807aa98, 0x12835b01, 0x243185be, 0x550c7dc3, 0x72be5d74, 0x80deb1fe, 0x9bdc06a7, 0xc19bf174,
     0xe49b69c1, 0xefbe4786, 0x0fc19dc6, 0x240ca1cc, 0x2de92c6f, 0x4a7484aa, 0x5cb0a9dc, 0x76f988da,
     0x983e5152, 0xa831c66d, 0xb00327c8, 0xbf597fc7, 0xc6e00bf3, 0xd5a79147, 0x06ca6351, 0x14292967,
     0x27b70a85, 0x2e1b2138, 0x4d2c6dfc, 0x53380d13, 0x650a7354, 0x766a0abb, 0x81c2c92e, 0x92722c85,
     0xa2bfe8a1, 0xa81a664b, 0xc24b8b70, 0xc76c51a3, 0xd192e819, 0xd6990624, 0xf40e3585, 0x106aa070,
     0x19a4c116, 0x1e376c08, 0x2748774c, 0x34b0bcb5, 0x391c0cb3, 0x4ed8aa4a, 0x5b9cca4f, 0x682e6ff3,
     0x748f82ee, 0x78a5636f, 0x84c87814, 0x8cc70208, 0x90befffa, 0xa4506ceb, 0xbef9a3f7, 0xc67178f2]"

definition H256 :: hstate where
  "H256 = (0x6a09e667, 0xbb67ae85, 0x3c6ef372, 0xa54ff53a,
           0x510e527f, 0x9b05688c, 0x1f83d9ab, 0x5be0cd19)"

definition add32 :: "u32 \<Rightarrow> u32 \<Rightarrow> u32" where
  "add32 x y = (x + y) AND 0xffffffff"

definition shr :: "nat \<Rightarrow> u32 \<Rightarrow> u32" where
  "shr n x = drop_bit n x"

definition rotr :: "nat \<Rightarrow> u32 \<Rightarrow> u32" where
  "rotr n x = drop_bit n x OR (push_bit (32 - n) x AND 0xffffffff)"

definition not32 :: "u32 \<Rightarrow> u32" where
  "not32 x = 0xffffffff - x"

definition Ch :: "u32 \<Rightarrow> u32 \<Rightarrow> u32 \<Rightarrow> u32" where
  "Ch x y z = (x AND y) XOR (not32 x AND z)"

definition Maj :: "u32 \<Rightarrow> u32 \<Rightarrow> u32 \<Rightarrow> u32" where
  "Maj x y z = (x AND y) XOR (x AND z) XOR (y AND z)"

definition Sigma0 :: "u32 \<Rightarrow> u32" where
  "Sigma0 x = rotr 2 x XOR rotr 13 x XOR rotr 22 x"

definition Sigma1 :: "u32 \<Rightarrow> u32" where
  "Sigma1 x = rotr 6 x XOR rotr 11 x XOR rotr 25 x"

definition sigma0 :: "u32 \<Rightarrow> u32" where
  "sigma0 x = rotr 7 x XOR rotr 18 x XOR shr 3 x"

definition sigma1 :: "u32 \<Rightarrow> u32" where
  "sigma1 x = rotr 17 x XOR rotr 19 x XOR shr 10 x"

text \<open>The sixteen big-endian words of a 64-byte block.\<close>

fun be_words :: "nat list \<Rightarrow> u32 list" where
  "be_words (a # b # c # d # bs) = (a * 16777216 + b * 65536 + c * 256 + d) # be_words bs"
| "be_words _ = []"

text \<open>
  The message schedule: word \<open>t\<close>, for \<open>t\<close> from 16 to 63, is computed from the words
  \<open>t - 2\<close>, \<open>t - 7\<close>, \<open>t - 15\<close> and \<open>t - 16\<close>.
\<close>

fun expand :: "nat list \<Rightarrow> u32 list \<Rightarrow> u32 list" where
  "expand [] ws = ws"
| "expand (t # ts) ws =
     expand ts (ws @ [add32 (add32 (add32 (sigma1 (ws ! (t - 2))) (ws ! (t - 7)))
                                  (sigma0 (ws ! (t - 15)))) (ws ! (t - 16))])"

definition schedule :: "nat list \<Rightarrow> u32 list" where
  "schedule block = expand [16..<64] (be_words block)"

definition T1 :: "u32 \<Rightarrow> u32 \<Rightarrow> u32 \<Rightarrow> u32 \<Rightarrow> u32 \<Rightarrow> u32 \<Rightarrow> u32" where
  "T1 e f g h k w = add32 (add32 (add32 (add32 h (Sigma1 e)) (Ch e f g)) k) w"

definition T2 :: "u32 \<Rightarrow> u32 \<Rightarrow> u32 \<Rightarrow> u32" where
  "T2 a b c = add32 (Sigma0 a) (Maj a b c)"

fun shift_in :: "u32 \<Rightarrow> u32 \<Rightarrow> hstate \<Rightarrow> hstate" where
  "shift_in t1 t2 (a, b, c, d, e, f, g, h) = (add32 t1 t2, a, b, c, add32 d t1, e, f, g)"

fun round_step :: "u32 \<times> u32 \<Rightarrow> hstate \<Rightarrow> hstate" where
  "round_step (k, w) (a, b, c, d, e, f, g, h) =
     shift_in (T1 e f g h k w) (T2 a b c) (a, b, c, d, e, f, g, h)"

fun rounds :: "(u32 \<times> u32) list \<Rightarrow> hstate \<Rightarrow> hstate" where
  "rounds [] st = st"
| "rounds (kw # kws) st = rounds kws (round_step kw st)"

fun add_state :: "hstate \<Rightarrow> hstate \<Rightarrow> hstate" where
  "add_state (a, b, c, d, e, f, g, h) (a', b', c', d', e', f', g', h') =
     (add32 a a', add32 b b', add32 c c', add32 d d',
      add32 e e', add32 f f', add32 g g', add32 h h')"

definition compress :: "hstate \<Rightarrow> nat list \<Rightarrow> hstate" where
  "compress hs block = add_state hs (rounds (zip K256 (schedule block)) hs)"

fun blocks :: "hstate \<Rightarrow> nat list \<Rightarrow> hstate" where
  "blocks hs [] = hs"
| "blocks hs (b # bs) = blocks (compress hs (take 64 (b # bs))) (drop 64 (b # bs))"

text \<open>
  Padding: the byte \<open>0x80\<close>, zero bytes up to 56 modulo 64, and the bit length of the
  message as a 64-bit big-endian number.
\<close>

definition be_bytes8 :: "nat \<Rightarrow> nat list" where
  "be_bytes8 x = map (\<lambda>i. (x div 256 ^ i) mod 256) [7, 6, 5, 4, 3, 2, 1, 0]"

definition pad :: "nat list \<Rightarrow> nat list" where
  "pad m = m @ [128] @ replicate ((119 - length m mod 64) mod 64) 0 @ be_bytes8 (8 * length m)"

definition sha256 :: "nat list \<Rightarrow> hstate" where
  "sha256 m = blocks H256 (pad m)"

text \<open>\<^verbatim>\<open>.hexdigest()\<close>: eight hex digits for each of the eight words.\<close>

fun hexdigest :: "hstate \<Rightarrow> string" where
  "hexdigest (a, b, c, d, e, f, g, h) =
     hex_fixed 8 a @ hex_fixed 8 b @ hex_fixed 8 c @ hex_fixed 8 d
     @ hex_fixed 8 e @ hex_fixed 8 f @ hex_fixed 8 g @ hex_fixed 8 h"

section \<open>The ETag\<close>

text \<open>
  \<^verbatim>\<open>_calc_etag\<close> (main.py, lines 65 to 76): the SHA-256 of the JSON dump without
  \<^verbatim>\<open>None\<close> fields, keys sorted, no spaces, as a quoted hex string.
\<close>

definition payload :: "TheatreRead \<Rightarrow> string" where
  "payload obj = json_dumps (exclude_none (model_dump obj))"

definition calc_etag :: "TheatreRead \<Rightarrow> string" where
  "calc_etag obj = [CHR 0x22] @ hexdigest (sha256 (encode_utf8 (payload obj))) @ [CHR 0x22]"

text \<open>
  The body of \<^verbatim>\<open>_calc_etag\<close> after the dump has been taken: the steps from the dictionary
  to the quoted digest.
\<close>

definition etag_of_dump :: "(string \<times> jvalue) list \<Rightarrow> string" where
  "etag_of_dump items =
     [CHR 0x22] @ hexdigest (sha256 (encode_utf8 (json_dumps (exclude_none items)))) @ [CHR 0x22]"

section \<open>The store and the theatre handlers\<close>

text \<open>
  The four module-level dictionaries. The screen, movie and showtime models are not used by
  any handler that is implemented, so their types are left open.
\<close>

record ('s, 'm, 'h) store =
  theatres :: "UUID \<rightharpoonup> TheatreRead"
  screens :: "UUID \<rightharpoonup> 's"
  movies :: "UUID \<rightharpoonup> 'm"
  showtimes :: "UUID \<rightharpoonup> 'h"

text \<open>
  A handler either raises \<^verbatim>\<open>HTTPException(status_code, detail)\<close> or produces a response:
  a status, the \<^verbatim>\<open>ETag\<close> header when one is set, and a body. The body is empty, a theatre
  (serialized through the response model), or the dictionary
  \<^verbatim>\<open>{"status": "deleted", "id": ...}\<close> of \<^verbatim>\<open>delete_theatre\<close>.
\<close>

datatype HTTPException = HTTPException nat string

datatype content = Empty | Theatre TheatreRead | Deleted string

record Response =
  status_code :: nat
  ETag :: "string option"
  body :: content

type_synonym ('s, 'm, 'h) outcome = "(HTTPException + Response) \<times> ('s, 'm, 'h) store"

text \<open>The status the client sees, for an exception and for a response.\<close>

fun status :: "HTTPException + Response \<Rightarrow> nat" where
  "status (Inl (HTTPException code detail)) = code"
| "status (Inr r) = status_code r"

fun is_error :: "HTTPException + Response \<Rightarrow> bool" where
  "is_error (Inl e) = True"
| "is_error (Inr r) = False"

fun etag_header :: "HTTPException + Response \<Rightarrow> string option" where
  "etag_header (Inl e) = None"
| "etag_header (Inr r) = ETag r"

fun body_of :: "HTTPException + Response \<Rightarrow> content" where
  "body_of (Inl e) = Empty"
| "body_of (Inr r) = body r"

text \<open>
  \<^verbatim>\<open>create_theatre\<close> (main.py, lines 100 to 105). The route declares status 201.
\<close>

definition create_theatre ::
  "UUID \<Rightarrow> datetime \<Rightarrow> datetime \<Rightarrow> TheatreCreate \<Rightarrow> ('s, 'm, 'h) store \<Rightarrow> ('s, 'm, 'h) outcome" where
  "create_theatre uid now_c now_u theatre db =
     (let new_theatre = TheatreRead_init uid now_c now_u theatre;
          db' = db\<lparr>theatres := (theatres db)(id' new_theatre \<mapsto> new_theatre)\<rparr>
      in (Inr \<lparr>status_code = 201, ETag = Some (calc_etag new_theatre),
               body = Theatre new_theatre\<rparr>, db'))"

text \<open>
  \<^verbatim>\<open>get_theatre\<close> (main.py, lines 136 to 153), the handler registered first for
  \<^verbatim>\<open>GET /theatres/{theatre_id}\<close>. A second function of the same name is registered for the
  same path at lines 155 to 161; the router serves the first matching route, so requests
  reach the handler below.
\<close>

definition get_theatre ::
  "UUID \<Rightarrow> string option \<Rightarrow> ('s, 'm, 'h) store \<Rightarrow> ('s, 'm, 'h) outcome" where
  "get_theatre theatre_id if_none_match db =
     (case theatres db theatre_id of
        None \<Rightarrow> (Inl (HTTPException 404 ''Theatre not found''), db)
      | Some item \<Rightarrow>
          (let etag = calc_etag item
           in if if_none_match = Some etag
              then (Inr \<lparr>status_code = 304, ETag = Some etag, body = Empty\<rparr>, db)
              else (Inr \<lparr>status_code = 200, ETag = Some etag, body = Theatre item\<rparr>, db)))"

text \<open>\<^verbatim>\<open>replace_theatre\<close> (main.py, lines 168 to 193).\<close>

definition replace_theatre ::
  "UUID \<Rightarrow> datetime \<Rightarrow> datetime \<Rightarrow> TheatreCreate \<Rightarrow> string option \<Rightarrow> ('s, 'm, 'h) store
     \<Rightarrow> ('s, 'm, 'h) outcome" where
  "replace_theatre theatre_id now_c now_u theatre if_match db =
     (case theatres db theatre_id of
        None \<Rightarrow> (Inl (HTTPException 404 ''Theatre not found''), db)
      | Some existing \<Rightarrow>
          (let current_etag = calc_etag existing
           in if if_match = None
              then (Inl (HTTPException 428 ''Precondition Required: missing If-Match''), db)
              else if if_match \<noteq> Some current_etag
              then (Inl (HTTPException 412 ''Precondition Failed: ETag mismatch''), db)
              else (let replacement = TheatreRead_init theatre_id now_c now_u theatre;
                        db' = db\<lparr>theatres := (theatres db)(theatre_id \<mapsto> replacement)\<rparr>;
                        new_etag = calc_etag replacement
                    in (Inr \<lparr>status_code = 200, ETag = Some new_etag,
                             body = Theatre replacement\<rparr>, db'))))"

text \<open>\<^verbatim>\<open>delete_theatre\<close> (main.py, lines 196 to 211).\<close>

definition delete_theatre ::
  "UUID \<Rightarrow> string option \<Rightarrow> ('s, 'm, 'h) store \<Rightarrow> ('s, 'm, 'h) outcome" where
  "delete_theatre theatre_id if_match db =
     (case theatres db theatre_id of
        None \<Rightarrow> (Inl (HTTPException 404 ''Theatre not found''), db)
      | Some existing \<Rightarrow>
          (let current_etag = calc_etag existing
           in if if_match \<noteq> None \<and> if_match \<noteq> Some current_etag
              then (Inl (HTTPException 412 ''Precondition Failed: ETag mismatch''), db)
              else (Inr \<lparr>status_code = 200, ETag = None,
                         body = Deleted (str_uuid theatre_id)\<rparr>,
                    db\<lparr>theatres := (theatres db)(theatre_id := None)\<rparr>)))"

text \<open>The shape of a strong validator: a quote, 64 lowercase hex digits, a quote.\<close>

definition is_strong_etag :: "string \<Rightarrow> bool" where
  "is_strong_etag e \<longleftrightarrow>
     length e = 66 \<and> hd e = CHR 0x22 \<and> last e = CHR 0x22
     \<and> list_all (\<lambda>c. c \<in> set ''0123456789abcdef'') (take 64 (tl e))"

text \<open>
  What an operation on identifier \<open>k\<close> may change: the theatre entry at \<open>k\<close> and nothing
  else.
\<close>

definition frame :: "UUID \<Rightarrow> ('s, 'm, 'h) store \<Rightarrow> ('s, 'm, 'h) store \<Rightarrow> bool" where
  "frame k db db' \<longleftrightarrow>
     (\<forall>j. j \<noteq> k \<longrightarrow> theatres db' j = theatres db j)
     \<and> screens db' = screens db \<and> movies db' = movies db \<and> showtimes db' = showtimes db"

text \<open>Values used to instantiate the theorems below.\<close>

definition epoch :: datetime where
  "epoch = \<lparr>year = 2025, month = 1, day = 1, hour = 0, minute = 0, second = 0, microsecond = 0\<rparr>"

definition grand_cinema :: TheatreCreate where
  "grand_cinema = \<lparr>name = ''Grand Cinema'', address = ''1 Main St'', city = ''NYC'', state = ''NY'',
     postal_code = ''10001'', country = ''US'', phone = None, email = None, capacity = 60\<rparr>"

definition empty_store :: "(unit, unit, unit) store" where
  "empty_store = \<lparr>theatres = Map.empty, screens = Map.empty, movies = Map.empty,
     showtimes = Map.empty\<rparr>"

definition one_store :: "(unit, unit, unit) store" where
  "one_store = snd (create_theatre 7 epoch epoch grand_cinema empty_store)"

definition two_store :: "(unit, unit, unit) store" where
  "two_store = snd (create_theatre 8 epoch epoch grand_cinema one_store)"

section \<open>Readers for the formats\<close>

text \<open>
  Readers for the number formats, used to show that the formats lose nothing: the value of a
  hex digit and of a string of hex digits, and the same for decimal digits.
\<close>

definition unhex :: "char \<Rightarrow> nat" where
  "unhex c = (if (of_char c :: nat) < 58 then of_char c - 48 else of_char c - 87)"

definition hexval :: "string \<Rightarrow> nat" where
  "hexval s = foldl (\<lambda>a c. 16 * a + unhex c) 0 s"

definition undigit :: "char \<Rightarrow> nat" where
  "undigit c = of_char c - 48"

definition decval :: "string \<Rightarrow> nat" where
  "decval s = foldl (\<lambda>a c. 10 * a + undigit c) 0 s"

text \<open>
  A reader for the first character of an escaped string: it undoes \<open>escape_char\<close> at the
  head of a string.
\<close>

definition unescape_first :: "string \<Rightarrow> (char \<times> string) option" where
  "unescape_first s =
     (case s of
        [] \<Rightarrow> None
      | x # r \<Rightarrow>
          if x \<noteq> CHR 0x5C then Some (x, r)
          else (case r of
                  [] \<Rightarrow> None
                | y # r' \<Rightarrow>
                    if y = CHR 0x5C then Some (CHR 0x5C, r')
                    else if y = CHR 0x22 then Some (CHR 0x22, r')
                    else if y = CHR ''b'' then Some (CHR 0x08, r')
                    else if y = CHR ''f'' then Some (CHR 0x0C, r')
                    else if y = CHR ''n'' then Some (CHR 0x0A, r')
                    else if y = CHR ''r'' then Some (CHR 0x0D, r')
                    else if y = CHR ''t'' then Some (CHR 0x09, r')
                    else Some (char_of (hexval (take 4 r')), drop 4 r')))"


text \<open>
  The contribution of an optional field to the serialization: nothing when the field is
  \<^verbatim>\<open>None\<close>, a comma and the item otherwise.
\<close>

definition opt_item :: "string \<Rightarrow> string option \<Rightarrow> string" where
  "opt_item k v = (case v of None \<Rightarrow> [] | Some s \<Rightarrow> '','' @ encode_item (k, JStr s))"

text \<open>A hash state whose eight words are below \<open>2 ^ 32\<close>.\<close>

fun word32_state :: "hstate \<Rightarrow> bool" where
  "word32_state (a, b, c, d, e, f, g, h) \<longleftrightarrow>
     a < 2 ^ 32 \<and> b < 2 ^ 32 \<and> c < 2 ^ 32 \<and> d < 2 ^ 32
     \<and> e < 2 ^ 32 \<and> f < 2 ^ 32 \<and> g < 2 ^ 32 \<and> h < 2 ^ 32"



section \<open>Properties of the ETag\<close>

lemma length_hex_fixed: "length (hex_fixed w n) = w"
  by (induction w arbitrary: n) simp_all

lemma hexchar_in: "hexchar n \<in> set ''0123456789abcdef''"
proof -
  have "n mod 16 < length ''0123456789abcdef''" by simp
  then show ?thesis unfolding hexchar_def by (rule nth_mem)
qed

lemma set_hex_fixed: "set (hex_fixed w n) \<subseteq> set ''0123456789abcdef''"
proof (induction w arbitrary: n)
  case 0
  show ?case by simp
next
  case (Suc w)
  from Suc [of "n div 16"] hexchar_in [of n] show ?case by simp
qed

lemma length_hexdigest: "length (hexdigest st) = 64"
proof -
  obtain a b c d e f g h where "st = (a, b, c, d, e, f, g, h)"
    by (cases st) auto
  then show ?thesis by (simp add: length_hex_fixed)
qed

lemma set_hexdigest: "set (hexdigest st) \<subseteq> set ''0123456789abcdef''"
proof -
  obtain a b c d e f g h where st: "st = (a, b, c, d, e, f, g, h)"
    by (cases st) auto
  show ?thesis
    unfolding st hexdigest.simps set_append
    by (intro Un_least set_hex_fixed)
qed

lemma is_strong_etag_calc_etag: "is_strong_etag (calc_etag obj)"
proof -
  let ?h = "hexdigest (sha256 (encode_utf8 (payload obj)))"
  have len: "length ?h = 64" by (rule length_hexdigest)
  have "list_all (\<lambda>c. c \<in> set ''0123456789abcdef'') ?h"
    using set_hexdigest [of "sha256 (encode_utf8 (payload obj))"]
    unfolding list_all_iff by blast
  with len show ?thesis
    by (simp add: is_strong_etag_def calc_etag_def)
qed

lemma calc_etag_not_empty: "calc_etag obj \<noteq> []"
  by (simp add: calc_etag_def)

lemma theatres_one_store:
  "theatres one_store 7 = Some (TheatreRead_init 7 epoch epoch grand_cinema)"
  by (simp add: one_store_def create_theatre_def TheatreRead_init_def empty_store_def Let_def)

lemma theatres_one_store_other: "theatres one_store 8 = None"
  by (simp add: one_store_def create_theatre_def TheatreRead_init_def empty_store_def Let_def)

section \<open>The conditional-request protocol\<close>

text \<open>
  C1. For a stored identifier, a PUT without \<^verbatim>\<open>If-Match\<close> is rejected with 428, a PUT
  whose \<^verbatim>\<open>If-Match\<close> differs from the ETag of the stored value is rejected with 412, and a
  PUT whose \<^verbatim>\<open>If-Match\<close> equals it stores the new field values under the same identifier
  and answers 200 with the ETag of the newly stored value. A PUT to an identifier that is
  not stored answers 404 and creates nothing.
\<close>

theorem replace_theatre_protocol:
  fixes db :: "('s, 'm, 'h) store"
  shows "(theatres db k = Some existing \<longrightarrow>
            (let r = replace_theatre k now_c now_u t None db
             in is_error (fst r) \<and> status (fst r) = 428)
          \<and> (\<forall>m. m \<noteq> calc_etag existing \<longrightarrow>
                (let r = replace_theatre k now_c now_u t (Some m) db
                 in is_error (fst r) \<and> status (fst r) = 412))
          \<and> (let r = replace_theatre k now_c now_u t (Some (calc_etag existing)) db;
                  new = TheatreRead_init k now_c now_u t
              in status (fst r) = 200 \<and> \<not> is_error (fst r)
                 \<and> snd r = db\<lparr>theatres := (theatres db)(k \<mapsto> new)\<rparr>
                 \<and> theatres (snd r) k = Some new
                 \<and> id' new = k \<and> TheatreCreate.truncate new = t
                 \<and> body_of (fst r) = Theatre new
                 \<and> etag_header (fst r) = Some (calc_etag new)))
       \<and> (theatres db k = None \<longrightarrow>
            (let r = replace_theatre k now_c now_u t if_match db
             in is_error (fst r) \<and> status (fst r) = 404 \<and> snd r = db))"
  by (simp add: replace_theatre_def TheatreRead_init_def TheatreCreate.truncate_def Let_def)

theorem replace_theatre_protocol_witness:
  "theatres one_store 7 = Some (TheatreRead_init 7 epoch epoch grand_cinema)
   \<and> status (fst (replace_theatre 7 epoch epoch grand_cinema None one_store)) = 428
   \<and> [] \<noteq> calc_etag (TheatreRead_init 7 epoch epoch grand_cinema)
   \<and> status (fst (replace_theatre 7 epoch epoch grand_cinema (Some []) one_store)) = 412
   \<and> status (fst (replace_theatre 7 epoch epoch grand_cinema
         (Some (calc_etag (TheatreRead_init 7 epoch epoch grand_cinema))) one_store)) = 200
   \<and> theatres one_store 8 = None
   \<and> status (fst (replace_theatre 8 epoch epoch grand_cinema None one_store)) = 404"
proof -
  let ?existing = "TheatreRead_init 7 epoch epoch grand_cinema"
  have stored: "theatres one_store 7 = Some ?existing" by (rule theatres_one_store)
  have absent: "theatres one_store 8 = None" by (rule theatres_one_store_other)
  have stale: "[] \<noteq> calc_etag ?existing" using calc_etag_not_empty [of ?existing] by simp
  note p = replace_theatre_protocol [where db = one_store and k = 7 and existing = ?existing
      and now_c = epoch and now_u = epoch and t = grand_cinema]
  note q = replace_theatre_protocol [where db = one_store and k = 8 and now_c = epoch
      and now_u = epoch and t = grand_cinema and if_match = None]
  from p stored stale q absent show ?thesis
    by (simp add: Let_def)
qed

text \<open>
  C3. For a stored identifier, a GET whose \<^verbatim>\<open>If-None-Match\<close> equals the ETag of the stored
  value answers 304 with an empty body and the supplied value as ETag header; a GET whose
  \<^verbatim>\<open>If-None-Match\<close> is absent or different answers 200 with the stored resource and its
  ETag. A GET for an identifier that is not stored answers 404. The store never changes.
\<close>

theorem get_theatre_protocol:
  fixes db :: "('s, 'm, 'h) store"
  shows "(theatres db k = Some item \<longrightarrow>
            (let r = get_theatre k (Some (calc_etag item)) db
             in status (fst r) = 304 \<and> body_of (fst r) = Empty
                \<and> etag_header (fst r) = Some (calc_etag item))
          \<and> (\<forall>inm. inm \<noteq> Some (calc_etag item) \<longrightarrow>
                (let r = get_theatre k inm db
                 in status (fst r) = 200 \<and> body_of (fst r) = Theatre item
                    \<and> etag_header (fst r) = Some (calc_etag item))))
       \<and> (theatres db k = None \<longrightarrow>
            (let r = get_theatre k inm' db in is_error (fst r) \<and> status (fst r) = 404))
       \<and> snd (get_theatre k inm' db) = db"
  by (simp add: get_theatre_def Let_def split: option.split)

theorem get_theatre_protocol_witness:
  "theatres one_store 7 = Some (TheatreRead_init 7 epoch epoch grand_cinema)
   \<and> status (fst (get_theatre 7
         (Some (calc_etag (TheatreRead_init 7 epoch epoch grand_cinema))) one_store)) = 304
   \<and> None \<noteq> Some (calc_etag (TheatreRead_init 7 epoch epoch grand_cinema))
   \<and> status (fst (get_theatre 7 None one_store)) = 200
   \<and> body_of (fst (get_theatre 7 None one_store))
       = Theatre (TheatreRead_init 7 epoch epoch grand_cinema)
   \<and> theatres one_store 8 = None
   \<and> status (fst (get_theatre 8 None one_store)) = 404"
proof -
  let ?item = "TheatreRead_init 7 epoch epoch grand_cinema"
  have stored: "theatres one_store 7 = Some ?item" by (rule theatres_one_store)
  have absent: "theatres one_store 8 = None" by (rule theatres_one_store_other)
  note p = get_theatre_protocol [where db = one_store and k = 7 and item = ?item]
  note q = get_theatre_protocol [where db = one_store and k = 8 and inm' = None]
  from p stored q absent show ?thesis
    by (simp add: Let_def)
qed

text \<open>
  C4. For a stored identifier, a DELETE whose \<^verbatim>\<open>If-Match\<close> differs from the current ETag
  answers 412 and the resource stays in the store; a DELETE without \<^verbatim>\<open>If-Match\<close>, or with
  the current ETag, removes the resource, so that a following GET answers 404. A DELETE for
  an identifier that is not stored answers 404.
\<close>

theorem delete_theatre_protocol:
  fixes db :: "('s, 'm, 'h) store"
  shows "(theatres db k = Some existing \<longrightarrow>
            (\<forall>m. m \<noteq> calc_etag existing \<longrightarrow>
                (let r = delete_theatre k (Some m) db
                 in is_error (fst r) \<and> status (fst r) = 412
                    \<and> theatres (snd r) k = Some existing))
          \<and> (\<forall>if_match. if_match = None \<or> if_match = Some (calc_etag existing) \<longrightarrow>
                (let r = delete_theatre k if_match db
                 in status (fst r) = 200 \<and> \<not> is_error (fst r)
                    \<and> theatres (snd r) k = None
                    \<and> status (fst (get_theatre k inm (snd r))) = 404)))
       \<and> (theatres db k = None \<longrightarrow>
            (let r = delete_theatre k if_match' db
             in is_error (fst r) \<and> status (fst r) = 404))"
  by (auto simp add: delete_theatre_def get_theatre_def Let_def)

theorem delete_theatre_protocol_witness:
  "theatres one_store 7 = Some (TheatreRead_init 7 epoch epoch grand_cinema)
   \<and> [] \<noteq> calc_etag (TheatreRead_init 7 epoch epoch grand_cinema)
   \<and> status (fst (delete_theatre 7 (Some []) one_store)) = 412
   \<and> theatres (snd (delete_theatre 7 (Some []) one_store)) 7
       = Some (TheatreRead_init 7 epoch epoch grand_cinema)
   \<and> status (fst (delete_theatre 7 None one_store)) = 200
   \<and> status (fst (get_theatre 7 None (snd (delete_theatre 7 None one_store)))) = 404
   \<and> theatres one_store 8 = None
   \<and> status (fst (delete_theatre 8 None one_store)) = 404"
proof -
  let ?existing = "TheatreRead_init 7 epoch epoch grand_cinema"
  have stored: "theatres one_store 7 = Some ?existing" by (rule theatres_one_store)
  have absent: "theatres one_store 8 = None" by (rule theatres_one_store_other)
  have stale: "[] \<noteq> calc_etag ?existing" using calc_etag_not_empty [of ?existing] by simp
  note p = delete_theatre_protocol [where db = one_store and k = 7 and existing = ?existing
      and inm = None]
  note q = delete_theatre_protocol [where db = one_store and k = 8 and if_match' = None]
  from p stored stale q absent show ?thesis
    by (simp add: Let_def)
qed

text \<open>
  C5. A GET, PUT or DELETE that ends in an error (404, 412 or 428) leaves the store exactly
  as it was: the store is written only after the precondition check has passed.
\<close>

theorem errors_leave_store_unchanged:
  fixes db :: "('s, 'm, 'h) store"
  shows "(let r = get_theatre k inm db
          in (is_error (fst r) \<or> status (fst r) \<in> {404, 412, 428}) \<longrightarrow> snd r = db)
       \<and> (let r = replace_theatre k now_c now_u t if_match db
          in (is_error (fst r) \<or> status (fst r) \<in> {404, 412, 428}) \<longrightarrow> snd r = db)
       \<and> (let r = delete_theatre k if_match db
          in (is_error (fst r) \<or> status (fst r) \<in> {404, 412, 428}) \<longrightarrow> snd r = db)"
  by (simp add: get_theatre_def replace_theatre_def delete_theatre_def Let_def
      split: option.split)

theorem errors_leave_store_unchanged_witness:
  "is_error (fst (get_theatre 8 None one_store))
   \<and> snd (get_theatre 8 None one_store) = one_store
   \<and> status (fst (replace_theatre 7 epoch epoch grand_cinema None one_store)) \<in> {404, 412, 428}
   \<and> snd (replace_theatre 7 epoch epoch grand_cinema None one_store) = one_store
   \<and> is_error (fst (delete_theatre 7 (Some []) one_store))
   \<and> snd (delete_theatre 7 (Some []) one_store) = one_store"
proof -
  let ?existing = "TheatreRead_init 7 epoch epoch grand_cinema"
  have stale: "[] \<noteq> calc_etag ?existing" using calc_etag_not_empty [of ?existing] by simp
  have g: "is_error (fst (get_theatre 8 None one_store))"
    by (simp add: get_theatre_def theatres_one_store_other)
  have p: "status (fst (replace_theatre 7 epoch epoch grand_cinema None one_store))
             \<in> {404, 412, 428}"
    by (simp add: replace_theatre_def theatres_one_store)
  have d: "is_error (fst (delete_theatre 7 (Some []) one_store))"
    using stale by (simp add: delete_theatre_def theatres_one_store)
  have g': "snd (get_theatre 8 None one_store) = one_store"
    using g errors_leave_store_unchanged [where k = 8 and inm = None and db = one_store
        and now_c = epoch and now_u = epoch and t = grand_cinema and if_match = None]
    by (auto simp add: Let_def)
  have p': "snd (replace_theatre 7 epoch epoch grand_cinema None one_store) = one_store"
    using p errors_leave_store_unchanged [where k = 7 and inm = None and db = one_store
        and now_c = epoch and now_u = epoch and t = grand_cinema and if_match = None]
    by (auto simp add: Let_def)
  have d': "snd (delete_theatre 7 (Some []) one_store) = one_store"
    using d errors_leave_store_unchanged [where k = 7 and inm = None and db = one_store
        and now_c = epoch and now_u = epoch and t = grand_cinema and if_match = "Some []"]
    by (auto simp add: Let_def)
  from g p d g' p' d' show ?thesis
    by blast
qed




text \<open>
  C10. A theatre operation on identifier \<open>k\<close> (for a create, the identifier assigned to the
  new theatre) changes at most the entry at \<open>k\<close>: every other entry of the theatre store is
  the same afterwards, and the screen, movie and showtime stores are untouched.
\<close>

theorem theatre_operations_frame:
  fixes db :: "('s, 'm, 'h) store"
  shows "frame k db (snd (create_theatre k now_c now_u t db))
       \<and> frame k db (snd (get_theatre k inm db))
       \<and> frame k db (snd (replace_theatre k now_c now_u t if_match db))
       \<and> frame k db (snd (delete_theatre k if_match db))"
  by (simp add: frame_def create_theatre_def get_theatre_def replace_theatre_def
      delete_theatre_def TheatreRead_init_def Let_def split: option.split)

theorem theatre_operations_frame_witness:
  "(8::nat) \<noteq> 7
   \<and> theatres (snd (delete_theatre 8 None
        (snd (create_theatre 8 epoch epoch grand_cinema one_store)))) 7 = theatres one_store 7
   \<and> theatres (snd (replace_theatre 8 epoch epoch grand_cinema None one_store)) 7
       = theatres one_store 7"
proof -
  let ?db = "snd (create_theatre 8 epoch epoch grand_cinema one_store)"
  have a: "frame 8 one_store ?db"
    using theatre_operations_frame [where k = 8 and db = one_store and now_c = epoch
        and now_u = epoch and t = grand_cinema and if_match = None]
    by simp
  have b: "frame 8 ?db (snd (delete_theatre 8 None ?db))"
    using theatre_operations_frame [where k = 8 and db = ?db and if_match = None]
    by simp
  have c: "frame 8 one_store (snd (replace_theatre 8 epoch epoch grand_cinema None one_store))"
    using theatre_operations_frame [where k = 8 and db = one_store and now_c = epoch
        and now_u = epoch and t = grand_cinema and if_match = None]
    by simp
  from a b c show ?thesis
    by (simp add: frame_def)
qed

text \<open>
  C9. Every ETag the service produces, in the responses of POST, GET and PUT, is a double
  quote, 64 lowercase hexadecimal characters, and a double quote.
\<close>

theorem etag_values_well_formed:
  fixes db :: "('s, 'm, 'h) store"
  shows "is_strong_etag (calc_etag obj)
       \<and> (\<forall>e. etag_header (fst (create_theatre uid now_c now_u t db)) = Some e
              \<longrightarrow> is_strong_etag e)
       \<and> (\<forall>e. etag_header (fst (get_theatre k inm db)) = Some e \<longrightarrow> is_strong_etag e)
       \<and> (\<forall>e. etag_header (fst (replace_theatre k now_c now_u t if_match db)) = Some e
              \<longrightarrow> is_strong_etag e)"
  by (auto simp add: create_theatre_def get_theatre_def replace_theatre_def Let_def
      is_strong_etag_calc_etag split: option.splits if_splits)

theorem etag_values_well_formed_witness:
  "etag_header (fst (create_theatre 7 epoch epoch grand_cinema empty_store))
     = Some (calc_etag (TheatreRead_init 7 epoch epoch grand_cinema))
   \<and> etag_header (fst (get_theatre 7 None one_store))
     = Some (calc_etag (TheatreRead_init 7 epoch epoch grand_cinema))
   \<and> etag_header (fst (replace_theatre 7 epoch epoch grand_cinema
         (Some (calc_etag (TheatreRead_init 7 epoch epoch grand_cinema))) one_store))
     = Some (calc_etag (TheatreRead_init 7 epoch epoch grand_cinema))
   \<and> is_strong_etag (calc_etag (TheatreRead_init 7 epoch epoch grand_cinema))
   \<and> length (calc_etag (TheatreRead_init 7 epoch epoch grand_cinema)) = 66"
proof -
  let ?item = "TheatreRead_init 7 epoch epoch grand_cinema"
  have c: "etag_header (fst (create_theatre 7 epoch epoch grand_cinema empty_store))
             = Some (calc_etag ?item)"
    by (simp add: create_theatre_def Let_def)
  have g: "etag_header (fst (get_theatre 7 None one_store)) = Some (calc_etag ?item)"
    by (simp add: get_theatre_def theatres_one_store)
  have p: "etag_header (fst (replace_theatre 7 epoch epoch grand_cinema
             (Some (calc_etag ?item)) one_store)) = Some (calc_etag ?item)"
    by (simp add: replace_theatre_def theatres_one_store Let_def)
  note w = etag_values_well_formed [where uid = 7 and now_c = epoch and now_u = epoch
      and t = grand_cinema and if_match = "Some (calc_etag ?item)" and inm = None and k = 7]
  from c w [where db = empty_store] have "is_strong_etag (calc_etag ?item)" by blast
  moreover from g w [where db = one_store] have "is_strong_etag (calc_etag ?item)" by blast
  moreover from p w [where db = one_store] have "is_strong_etag (calc_etag ?item)" by blast
  ultimately show ?thesis
    using c g p by (simp add: is_strong_etag_def)
qed

lemma calc_etag_dump: "calc_etag obj = etag_of_dump (model_dump obj)"
  by (simp add: calc_etag_def etag_of_dump_def payload_def)

lemma distinct_keys_model_dump: "distinct (map fst (model_dump R))"
  by (simp add: model_dump_def)

lemma filter_same_key:
  "distinct (map f xs) \<Longrightarrow> k \<in> set xs \<Longrightarrow> filter (\<lambda>x. f k = f x) xs = [k]"
proof (induction xs)
  case Nil
  then show ?case by simp
next
  case (Cons x xs)
  show ?case
  proof (cases "k = x")
    case True
    with Cons.prems have "\<forall>y \<in> set xs. f k \<noteq> f y" by auto
    then have "filter (\<lambda>x. f k = f x) xs = []" by (simp add: filter_empty_conv)
    with True show ?thesis by simp
  next
    case False
    with Cons.prems have k: "k \<in> set xs" by simp
    from Cons.prems have "f x \<notin> f ` set xs" and d: "distinct (map f xs)" by simp_all
    with k have "f k \<noteq> f x" by (metis imageI)
    with Cons.IH [OF d k] show ?thesis by simp
  qed
qed

lemma sort_key_permutation:
  assumes "mset xs = mset ys" and "distinct (map f ys)"
  shows "sort_key f xs = sort_key f ys"
proof (rule properties_for_sort_key)
  show "mset (sort_key f ys) = mset xs" using assms(1) by simp
  show "sorted (map f (sort_key f ys))" by simp
  fix k
  assume "k \<in> set (sort_key f ys)"
  then have k: "k \<in> set ys" by simp
  from assms have "mset (map f xs) = mset (map f ys)" by (metis mset_map)
  with assms(2) have dx: "distinct (map f xs)" by (metis mset_eq_imp_distinct_iff)
  from assms(1) k have kx: "k \<in> set xs" by (metis mset_eq_setD)
  have "distinct (map f (sort_key f ys))" using assms(2) by (simp add: distinct_map)
  then have "filter (\<lambda>x. f k = f x) (sort_key f ys) = [k]"
    using \<open>k \<in> set (sort_key f ys)\<close> by (rule filter_same_key)
  moreover from dx kx have "filter (\<lambda>x. f k = f x) xs = [k]" by (rule filter_same_key)
  ultimately show "filter (\<lambda>x. f k = f x) (sort_key f ys) = filter (\<lambda>x. f k = f x) xs"
    by simp
qed

lemma json_dumps_permutation:
  assumes "mset items = mset (model_dump R)"
  shows "json_dumps (exclude_none items) = payload R"
proof -
  have "mset (exclude_none items) = mset (exclude_none (model_dump R))"
    using assms by (simp add: exclude_none_def)
  moreover have "distinct (map fst (exclude_none (model_dump R)))"
    using distinct_keys_model_dump [of R] by (simp add: exclude_none_def distinct_map_filter)
  ultimately have "sort_key fst (exclude_none items) = sort_key fst (exclude_none (model_dump R))"
    by (rule sort_key_permutation)
  then show ?thesis by (simp add: json_dumps_def payload_def)
qed

text \<open>
  C7. The ETag of a resource value is a function of its field values and of nothing else.
  It is computed from the dump of the resource, and in whatever order a dump lists the
  fields, the serialization and the ETag are the same: computing the ETag twice from the
  same field values gives the same string, the one \<open>calc_etag\<close> returns.
\<close>

theorem calc_etag_deterministic:
  "mset dump1 = mset (model_dump R) \<and> mset dump2 = mset (model_dump R)
     \<longrightarrow> etag_of_dump dump1 = etag_of_dump dump2 \<and> etag_of_dump dump1 = calc_etag R"
  by (simp add: etag_of_dump_def calc_etag_def json_dumps_permutation)

theorem calc_etag_deterministic_witness:
  "mset (rev (model_dump (TheatreRead_init 7 epoch epoch grand_cinema)))
     = mset (model_dump (TheatreRead_init 7 epoch epoch grand_cinema))
   \<and> rev (model_dump (TheatreRead_init 7 epoch epoch grand_cinema))
     \<noteq> model_dump (TheatreRead_init 7 epoch epoch grand_cinema)
   \<and> etag_of_dump (rev (model_dump (TheatreRead_init 7 epoch epoch grand_cinema)))
     = etag_of_dump (model_dump (TheatreRead_init 7 epoch epoch grand_cinema))
   \<and> etag_of_dump (rev (model_dump (TheatreRead_init 7 epoch epoch grand_cinema)))
     = calc_etag (TheatreRead_init 7 epoch epoch grand_cinema)"
proof -
  let ?R = "TheatreRead_init 7 epoch epoch grand_cinema"
  have a: "mset (rev (model_dump ?R)) = mset (model_dump ?R)" by simp
  have c: "rev (model_dump ?R) \<noteq> model_dump ?R"
    by (simp add: model_dump_def)
  from a c calc_etag_deterministic [where ?dump1.0 = "rev (model_dump ?R)"
      and ?dump2.0 = "model_dump ?R" and R = ?R]
  show ?thesis by blast
qed

section \<open>The ETag of two concrete resources\<close>

text \<open>Unfolding a numeral count one step, for evaluating the functions defined by recursion on it.\<close>

lemma hex_fixed_numeral:
  "hex_fixed (numeral w) n = hex_fixed (pred_numeral w) (n div 16) @ [hexchar n]"
  using hex_fixed.simps(2) [of "pred_numeral w" n] by (simp only: numeral_eq_Suc)

lemma dec_fixed_numeral:
  "dec_fixed (numeral w) n = dec_fixed (pred_numeral w) (n div 10) @ [digit n]"
  using dec_fixed.simps(2) [of "pred_numeral w" n] by (simp only: numeral_eq_Suc)

lemma replicate_numeral_unfold: "replicate (numeral k) x = x # replicate (pred_numeral k) x"
  using replicate.simps(2) [of "pred_numeral k" x] by (simp only: numeral_eq_Suc)

lemmas json_defs = payload_def json_dumps_def model_dump_def exclude_none_def opt_str_def
  encode_item_def encode_basestring_ascii_def escape_char_def str_uuid_def isoformat_def
  str_int_def str_nat.simps digit_def hexchar_def hex_fixed_numeral dec_fixed_numeral

lemmas sha_defs = sha256_def pad_def be_bytes8_def encode_utf8_def replicate_numeral_unfold
  compress_def T1_def T2_def add32_def shr_def not32_def schedule_def
  sigma0_def sigma1_def Sigma0_def Sigma1_def Ch_def Maj_def rotr_def K256_def H256_def

text \<open>The FIPS 180-4 example: the digest of the three bytes \<^verbatim>\<open>abc\<close>.\<close>

lemma sha256_abc:
  "hexdigest (sha256 (encode_utf8 ''abc''))
     = ''ba7816bf8f01cfea414140de5dae2223b00361a396177a9cb410ff61f20015ad''"
  by (simp add: sha_defs hex_fixed_numeral hexchar_def)

text \<open>
  The theatre created from \<open>grand_cinema\<close> with identifier 7 at \<open>epoch\<close>: the serialization
  that is hashed, and its ETag.
\<close>

lemma payload_theatre_7:
  "payload (TheatreRead_init 7 epoch epoch grand_cinema) =
     ''{'' @ [CHR 0x22] @ ''address'' @ [CHR 0x22] @ '':'' @ [CHR 0x22] @ ''1 Main St''
     @ [CHR 0x22] @ '','' @ [CHR 0x22] @ ''capacity'' @ [CHR 0x22] @ '':60,''
     @ [CHR 0x22] @ ''city'' @ [CHR 0x22] @ '':'' @ [CHR 0x22] @ ''NYC'' @ [CHR 0x22]
     @ '','' @ [CHR 0x22] @ ''country'' @ [CHR 0x22] @ '':'' @ [CHR 0x22] @ ''US''
     @ [CHR 0x22] @ '','' @ [CHR 0x22] @ ''created_at'' @ [CHR 0x22] @ '':''
     @ [CHR 0x22] @ ''2025-01-01T00:00:00Z'' @ [CHR 0x22] @ '','' @ [CHR 0x22] @ ''id''
     @ [CHR 0x22] @ '':'' @ [CHR 0x22] @ ''00000000-0000-0000-0000-000000000007''
     @ [CHR 0x22] @ '','' @ [CHR 0x22] @ ''name'' @ [CHR 0x22] @ '':'' @ [CHR 0x22]
     @ ''Grand Cinema'' @ [CHR 0x22] @ '','' @ [CHR 0x22] @ ''postal_code'' @ [CHR 0x22]
     @ '':'' @ [CHR 0x22] @ ''10001'' @ [CHR 0x22] @ '','' @ [CHR 0x22] @ ''state''
     @ [CHR 0x22] @ '':'' @ [CHR 0x22] @ ''NY'' @ [CHR 0x22] @ '','' @ [CHR 0x22]
     @ ''updated_at'' @ [CHR 0x22] @ '':'' @ [CHR 0x22] @ ''2025-01-01T00:00:00Z''
     @ [CHR 0x22] @ ''}''"
  by (simp add: json_defs TheatreRead_init_def grand_cinema_def epoch_def)

lemma calc_etag_theatre_7:
  "calc_etag (TheatreRead_init 7 epoch epoch grand_cinema) =
     [CHR 0x22] @ ''0c825750f28768c47ed4bff670b5064f59fcf35ba81fd7b8de7e9c9bdde5a5fe''
     @ [CHR 0x22]"
  by (simp add: calc_etag_def json_defs sha_defs TheatreRead_init_def grand_cinema_def epoch_def)

text \<open>The same request body stored under identifier 8.\<close>

lemma calc_etag_theatre_8:
  "calc_etag (TheatreRead_init 8 epoch epoch grand_cinema) =
     [CHR 0x22] @ ''d654c88fa7bae94ff2861064caca2002583457909fdf6ddb5bb1e74b03e86d59''
     @ [CHR 0x22]"
  by (simp add: calc_etag_def json_defs sha_defs TheatreRead_init_def grand_cinema_def epoch_def)

lemma theatres_two_store:
  "theatres two_store 7 = Some (TheatreRead_init 7 epoch epoch grand_cinema)"
  "theatres two_store 8 = Some (TheatreRead_init 8 epoch epoch grand_cinema)"
  by (simp_all add: two_store_def one_store_def create_theatre_def TheatreRead_init_def
      empty_store_def Let_def)


section \<open>The serialization loses nothing\<close>

lemma unhex_nth: "k < 16 \<Longrightarrow> unhex (''0123456789abcdef'' ! k) = k"
proof -
  assume "k < 16"
  then have "k = 0 \<or> k = 1 \<or> k = 2 \<or> k = 3 \<or> k = 4 \<or> k = 5 \<or> k = 6 \<or> k = 7
    \<or> k = 8 \<or> k = 9 \<or> k = 10 \<or> k = 11 \<or> k = 12 \<or> k = 13 \<or> k = 14 \<or> k = 15"
    by arith
  then show ?thesis
    by (elim disjE) (simp_all add: unhex_def)
qed

lemma unhex_hexchar: "unhex (hexchar n) = n mod 16"
  unfolding hexchar_def by (rule unhex_nth) simp

lemma hexval_snoc: "hexval (s @ [c]) = 16 * hexval s + unhex c"
  by (simp add: hexval_def)

lemma hexval_hex_fixed: "hexval (hex_fixed w n) = n mod 16 ^ w"
proof (induction w arbitrary: n)
  case 0
  show ?case by (simp add: hexval_def)
next
  case (Suc w)
  have "hexval (hex_fixed (Suc w) n) = 16 * (n div 16 mod 16 ^ w) + n mod 16"
    by (simp add: hexval_snoc Suc unhex_hexchar)
  also have "\<dots> = n mod (16 * 16 ^ w)"
    by (simp add: mod_mult2_eq)
  finally show ?case by simp
qed

lemma hex_fixed_inj:
  assumes "n < 16 ^ w" and "m < 16 ^ w" and "hex_fixed w n = hex_fixed w m"
  shows "n = m"
proof -
  from assms(3) have "hexval (hex_fixed w n) = hexval (hex_fixed w m)" by simp
  with assms(1,2) show ?thesis by (simp add: hexval_hex_fixed)
qed

lemma undigit_nth: "k < 10 \<Longrightarrow> undigit (''0123456789'' ! k) = k"
proof -
  assume "k < 10"
  then have "k = 0 \<or> k = 1 \<or> k = 2 \<or> k = 3 \<or> k = 4 \<or> k = 5 \<or> k = 6 \<or> k = 7
    \<or> k = 8 \<or> k = 9"
    by arith
  then show ?thesis
    by (elim disjE) (simp_all add: undigit_def)
qed

lemma undigit_digit: "undigit (digit n) = n mod 10"
  unfolding digit_def by (rule undigit_nth) simp

lemma digit_in: "digit n \<in> set ''0123456789''"
proof -
  have "n mod 10 < length ''0123456789''" by simp
  then show ?thesis unfolding digit_def by (rule nth_mem)
qed

lemma decval_snoc: "decval (s @ [c]) = 10 * decval s + undigit c"
  by (simp add: decval_def)




lemma decval_str_nat: "decval (str_nat n) = n"
proof (induction n rule: str_nat.induct)
  case (1 n)
  show ?case
  proof (cases "n < 10")
    case True
    then show ?thesis
      by (simp add: str_nat.simps [of n] decval_def undigit_digit)
  next
    case False
    with 1 have "decval (str_nat (n div 10)) = n div 10" by simp
    with False show ?thesis
      by (simp add: str_nat.simps [of n] decval_snoc undigit_digit)
  qed
qed

lemma set_str_nat: "set (str_nat n) \<subseteq> set ''0123456789''"
proof (induction n rule: str_nat.induct)
  case (1 n)
  show ?case
  proof (cases "n < 10")
    case True
    with digit_in [of n] show ?thesis
      by (simp add: str_nat.simps [of n])
  next
    case False
    with 1 have "set (str_nat (n div 10)) \<subseteq> set ''0123456789''" by simp
    with False digit_in [of n] show ?thesis
      by (simp add: str_nat.simps [of n])
  qed
qed

lemma str_nat_no_minus: "CHR ''-'' \<notin> set (str_nat n)"
  using set_str_nat [of n] by auto

lemma str_nat_inj: "str_nat n = str_nat m \<Longrightarrow> n = m"
  by (metis decval_str_nat)

lemma str_int_inj:
  assumes "str_int i = str_int j"
  shows "i = j"
proof (cases "i < 0"; cases "j < 0")
  assume "i < 0" "j < 0"
  with assms have "nat (- i) = nat (- j)"
    by (simp add: str_int_def str_nat_inj)
  with \<open>i < 0\<close> \<open>j < 0\<close> show ?thesis by simp
next
  assume "i < 0" "\<not> j < 0"
  with assms have "CHR ''-'' # str_nat (nat (- i)) = str_nat (nat j)"
    by (simp add: str_int_def)
  then have "CHR ''-'' \<in> set (str_nat (nat j))"
    by (metis list.set_intros(1))
  with str_nat_no_minus show ?thesis by blast
next
  assume "\<not> i < 0" "j < 0"
  with assms have "str_nat (nat i) = CHR ''-'' # str_nat (nat (- j))"
    by (simp add: str_int_def)
  then have "CHR ''-'' \<in> set (str_nat (nat i))"
    by (metis list.set_intros(1))
  with str_nat_no_minus show ?thesis by blast
next
  assume "\<not> i < 0" "\<not> j < 0"
  with assms have "nat i = nat j"
    by (simp add: str_int_def str_nat_inj)
  with \<open>\<not> i < 0\<close> \<open>\<not> j < 0\<close> show ?thesis by simp
qed

lemma escape_char_not_Nil: "escape_char c \<noteq> []"
  by (simp add: escape_char_def)

lemma of_char_less_256: "(of_char c :: nat) < 256"
proof -
  have "(of_char c :: nat) = of_char c mod 256" by simp
  also have "\<dots> < 256" by (rule mod_less_divisor) simp
  finally show ?thesis .
qed

lemma unescape_first_escape_char: "unescape_first (escape_char c @ r) = Some (c, r)"
proof -
  have "(of_char c :: nat) < 65536"
    using of_char_less_256 [of c] by linarith
  then have "hexval (hex_fixed 4 (of_char c)) = (of_char c :: nat)"
    by (simp add: hexval_hex_fixed)
  then show ?thesis
    by (simp add: unescape_first_def escape_char_def length_hex_fixed)
qed

lemma concat_escape_inj:
  "concat (map escape_char s) = concat (map escape_char t) \<Longrightarrow> s = t"
proof (induction s arbitrary: t)
  case Nil
  then show ?case
    by (cases t) (simp_all add: escape_char_not_Nil)
next
  case (Cons c s)
  show ?case
  proof (cases t)
    case Nil
    with Cons.prems show ?thesis
      by (simp add: escape_char_not_Nil)
  next
    case (Cons d t')
    with Cons.prems have
      "escape_char c @ concat (map escape_char s) = escape_char d @ concat (map escape_char t')"
      by simp
    then have "unescape_first (escape_char c @ concat (map escape_char s))
                 = unescape_first (escape_char d @ concat (map escape_char t'))"
      by (rule arg_cong)
    then have "c = d" and "concat (map escape_char s) = concat (map escape_char t')"
      by (simp_all add: unescape_first_escape_char)
    with Cons.IH [of t'] Cons show ?thesis by simp
  qed
qed

lemma encode_basestring_ascii_inj [simp]:
  "encode_basestring_ascii s = encode_basestring_ascii t \<longleftrightarrow> s = t"
  by (auto simp add: encode_basestring_ascii_def dest: concat_escape_inj)

lemma str_int_eq_iff [simp]: "str_int i = str_int j \<longleftrightarrow> i = j"
  using str_int_inj by blast

lemma regroup:
  "take 8 h @ take 4 (drop 8 h) @ take 4 (drop 12 h) @ take 4 (drop 16 h) @ drop 20 h = h"
proof -
  have a: "take 4 (drop 16 h) @ drop 20 h = drop 16 h"
    using append_take_drop_id [of 4 "drop 16 h"] by simp
  have b: "take 4 (drop 12 h) @ drop 16 h = drop 12 h"
    using append_take_drop_id [of 4 "drop 12 h"] by simp
  have c: "take 4 (drop 8 h) @ drop 12 h = drop 8 h"
    using append_take_drop_id [of 4 "drop 8 h"] by simp
  show ?thesis
    by (simp only: a b c append_take_drop_id)
qed

lemma str_uuid_inj:
  assumes "u < 2 ^ 128" and "v < 2 ^ 128" and "str_uuid u = str_uuid v"
  shows "u = v"
proof -
  let ?h = "hex_fixed 32 u" and ?k = "hex_fixed 32 v"
  from assms(3) have parts: "take 8 ?h = take 8 ?k" "take 4 (drop 8 ?h) = take 4 (drop 8 ?k)"
    "take 4 (drop 12 ?h) = take 4 (drop 12 ?k)" "take 4 (drop 16 ?h) = take 4 (drop 16 ?k)"
    "drop 20 ?h = drop 20 ?k"
    by (simp_all add: str_uuid_def Let_def length_hex_fixed)
  have "?h = take 8 ?h @ take 4 (drop 8 ?h) @ take 4 (drop 12 ?h) @ take 4 (drop 16 ?h)
               @ drop 20 ?h"
    by (simp only: regroup)
  also have "\<dots> = take 8 ?k @ take 4 (drop 8 ?k) @ take 4 (drop 12 ?k) @ take 4 (drop 16 ?k)
               @ drop 20 ?k"
    by (simp only: parts)
  also have "\<dots> = ?k"
    by (simp only: regroup)
  finally have "?h = ?k" .
  moreover have "(2::nat) ^ 128 = 16 ^ 32" by simp
  ultimately show ?thesis
    using assms(1,2) by (intro hex_fixed_inj [of u 32 v]) simp_all
qed



text \<open>
  The serialization of a theatre, written out: the items in key order, the two optional
  items only when present.
\<close>

lemma payload_explicit:
  "payload R =
     ''{'' @ encode_item (''address'', JStr (address R))
     @ '','' @ encode_item (''capacity'', JInt (capacity R))
     @ '','' @ encode_item (''city'', JStr (city R))
     @ '','' @ encode_item (''country'', JStr (country R))
     @ '','' @ encode_item (''created_at'', JDatetime (created_at R))
     @ opt_item ''email'' (email R)
     @ '','' @ encode_item (''id'', JUUID (id' R))
     @ '','' @ encode_item (''name'', JStr (name R))
     @ opt_item ''phone'' (phone R)
     @ '','' @ encode_item (''postal_code'', JStr (postal_code R))
     @ '','' @ encode_item (''state'', JStr (state R))
     @ '','' @ encode_item (''updated_at'', JDatetime (updated_at R))
     @ ''}''"
  by (cases "phone R"; cases "email R")
    (simp_all add: payload_def json_dumps_def model_dump_def exclude_none_def opt_str_def
      opt_item_def)

lemma encode_item_value_inj:
  "encode_item (k, v) = encode_item (k, v') \<longleftrightarrow> encode_value v = encode_value v'"
  by (simp add: encode_item_def)

lemma id_changes_payload:
  assumes "u < 2 ^ 128" and "id' R < 2 ^ 128"
  shows "payload (R\<lparr>id' := u\<rparr>) = payload R \<longleftrightarrow> u = id' R"
proof
  assume "payload (R\<lparr>id' := u\<rparr>) = payload R"
  then have "str_uuid u = str_uuid (id' R)"
    by (simp add: payload_explicit encode_item_value_inj)
  with assms show "u = id' R" by (rule str_uuid_inj)
next
  assume "u = id' R"
  then show "payload (R\<lparr>id' := u\<rparr>) = payload R" by simp
qed

text \<open>The digest can be read back from the ETag.\<close>

lemma and_mask32_less: "(x::nat) AND 4294967295 < 4294967296"
proof -
  have "(4294967295::nat) = mask 32" by (simp add: mask_eq_exp_minus_1)
  then have "x AND 4294967295 = take_bit 32 x" by (simp add: take_bit_eq_mask)
  also have "\<dots> < 2 ^ 32" by (rule take_bit_nat_less_exp)
  finally show ?thesis by simp
qed

lemma word32_state_add_state: "word32_state (add_state x y)"
proof -
  obtain a b c d e f g h where x: "x = (a, b, c, d, e, f, g, h)" by (cases x) auto
  obtain a' b' c' d' e' f' g' h' where y: "y = (a', b', c', d', e', f', g', h')"
    by (cases y) auto
  show ?thesis
    unfolding x y by (simp add: add32_def and_mask32_less)
qed

lemma word32_state_blocks: "word32_state hs \<Longrightarrow> word32_state (blocks hs bs)"
proof (induction hs bs rule: blocks.induct)
  case (1 hs)
  then show ?case by simp
next
  case (2 hs b bs)
  have "word32_state (compress hs (take 64 (b # bs)))"
    unfolding compress_def by (rule word32_state_add_state)
  with 2 show ?case by simp
qed

lemma word32_state_sha256: "word32_state (sha256 m)"
  unfolding sha256_def by (rule word32_state_blocks) (simp add: H256_def)

lemma hexdigest_inj:
  assumes "word32_state s" and "word32_state t" and "hexdigest s = hexdigest t"
  shows "s = t"
proof -
  obtain a b c d e f g h where s: "s = (a, b, c, d, e, f, g, h)" by (cases s) auto
  obtain a' b' c' d' e' f' g' h' where t: "t = (a', b', c', d', e', f', g', h')"
    by (cases t) auto
  from assms(3) have parts: "hex_fixed 8 a = hex_fixed 8 a'" "hex_fixed 8 b = hex_fixed 8 b'"
    "hex_fixed 8 c = hex_fixed 8 c'" "hex_fixed 8 d = hex_fixed 8 d'"
    "hex_fixed 8 e = hex_fixed 8 e'" "hex_fixed 8 f = hex_fixed 8 f'"
    "hex_fixed 8 g = hex_fixed 8 g'" "hex_fixed 8 h = hex_fixed 8 h'"
    unfolding s t by (simp_all add: length_hex_fixed)
  have "(2::nat) ^ 32 = 16 ^ 8" by simp
  with assms(1,2) have bounds: "a < 16 ^ 8" "a' < 16 ^ 8" "b < 16 ^ 8" "b' < 16 ^ 8"
    "c < 16 ^ 8" "c' < 16 ^ 8" "d < 16 ^ 8" "d' < 16 ^ 8" "e < 16 ^ 8" "e' < 16 ^ 8"
    "f < 16 ^ 8" "f' < 16 ^ 8" "g < 16 ^ 8" "g' < 16 ^ 8" "h < 16 ^ 8" "h' < 16 ^ 8"
    unfolding s t by simp_all
  from parts bounds have "a = a'" "b = b'" "c = c'" "d = d'" "e = e'" "f = f'" "g = g'" "h = h'"
    by (blast intro: hex_fixed_inj)+
  then show ?thesis unfolding s t by simp
qed

lemma calc_etag_eq_iff:
  "calc_etag a = calc_etag b
     \<longleftrightarrow> sha256 (encode_utf8 (payload a)) = sha256 (encode_utf8 (payload b))"
  by (auto simp add: calc_etag_def dest: hexdigest_inj [OF word32_state_sha256 word32_state_sha256])

text \<open>
  An encoded string ends at its closing quote: whatever follows it, the string and the rest
  can be read back.
\<close>

lemma escape_char_hd: "\<exists>x xs. escape_char c = x # xs \<and> x \<noteq> CHR 0x22"
  by (simp add: escape_char_def)

lemma escaped_delimited:
  "concat (map escape_char s) @ CHR 0x22 # r = concat (map escape_char t) @ CHR 0x22 # r'
     \<Longrightarrow> s = t \<and> r = r'"
proof (induction s arbitrary: t)
  case Nil
  show ?case
  proof (cases t)
    case Nil
    with Nil.prems show ?thesis by simp
  next
    case (Cons d t')
    obtain x xs where "escape_char d = x # xs" and "x \<noteq> CHR 0x22"
      using escape_char_hd by blast
    with Nil.prems Cons show ?thesis by simp
  qed
next
  case (Cons c s)
  show ?case
  proof (cases t)
    case Nil
    obtain x xs where "escape_char c = x # xs" and "x \<noteq> CHR 0x22"
      using escape_char_hd by blast
    with Cons.prems Nil show ?thesis by simp
  next
    case (Cons d t')
    let ?u = "concat (map escape_char s) @ CHR 0x22 # r"
    let ?v = "concat (map escape_char t') @ CHR 0x22 # r'"
    from Cons.prems Cons have "escape_char c @ ?u = escape_char d @ ?v" by simp
    then have "unescape_first (escape_char c @ ?u) = unescape_first (escape_char d @ ?v)"
      by (rule arg_cong)
    then have "c = d" and "?u = ?v"
      by (simp_all add: unescape_first_escape_char)
    with Cons.IH [of t'] Cons show ?thesis by simp
  qed
qed

lemma encode_basestring_ascii_delimited [simp]:
  "encode_basestring_ascii s @ r = encode_basestring_ascii t @ r' \<longleftrightarrow> s = t \<and> r = r'"
  by (auto simp add: encode_basestring_ascii_def dest: escaped_delimited)

text \<open>A number ends at the comma that follows it.\<close>

lemma split_at_first:
  "c \<notin> set xs \<Longrightarrow> c \<notin> set ys \<Longrightarrow> xs @ c # r = ys @ c # r' \<Longrightarrow> xs = ys \<and> r = r'"
proof (induction xs arbitrary: ys)
  case Nil
  then show ?case by (cases ys) auto
next
  case (Cons x xs)
  then show ?case by (cases ys) auto
qed

lemma comma_not_in_str_int: "CHR '','' \<notin> set (str_int i)"
  using set_str_nat [of "nat i"] set_str_nat [of "nat (- i)"]
  by (auto simp add: str_int_def)

lemma str_int_delimited [simp]:
  "str_int i @ CHR '','' # r = str_int j @ CHR '','' # r' \<longleftrightarrow> i = j \<and> r = r'"
  using split_at_first [OF comma_not_in_str_int comma_not_in_str_int, of i r j r']
  by auto



section \<open>Content addressing and change sensitivity\<close>

text \<open>
  C2, as stated, fails. The dump that is hashed contains the \<^verbatim>\<open>id\<close> field (and the two
  timestamps), so two resources with the same business fields stored under the identifiers
  7 and 8 get different ETags.
\<close>

theorem content_addressing_counterexample:
  "theatres two_store 7 = Some (TheatreRead_init 7 epoch epoch grand_cinema)
   \<and> theatres two_store 8 = Some (TheatreRead_init 8 epoch epoch grand_cinema)
   \<and> (7::nat) \<noteq> 8
   \<and> TheatreCreate.truncate (TheatreRead_init 7 epoch epoch grand_cinema)
       = TheatreCreate.truncate (TheatreRead_init 8 epoch epoch grand_cinema)
   \<and> calc_etag (TheatreRead_init 7 epoch epoch grand_cinema)
       \<noteq> calc_etag (TheatreRead_init 8 epoch epoch grand_cinema)"
proof -
  have "calc_etag (TheatreRead_init 7 epoch epoch grand_cinema)
       \<noteq> calc_etag (TheatreRead_init 8 epoch epoch grand_cinema)"
    unfolding calc_etag_theatre_7 calc_etag_theatre_8 by simp
  then show ?thesis
    by (simp add: theatres_two_store TheatreRead_init_def TheatreCreate.truncate_def)
qed

text \<open>
  C2, amended. The ETag addresses the whole serialized resource, and that includes the
  \<^verbatim>\<open>id\<close> and the two timestamps: two resources whose business fields, identifier and
  timestamps are all the same have the same ETag, while two resources that differ only in
  their identifier (a 128-bit UUID) are serialized differently, and two ETags are equal
  exactly when the SHA-256 digests of the two serializations are.
\<close>

theorem etag_addresses_whole_resource:
  "(TheatreCreate.truncate a = TheatreCreate.truncate b \<and> id' a = id' b
      \<and> created_at a = created_at b \<and> updated_at a = updated_at b
      \<longrightarrow> calc_etag a = calc_etag b)
   \<and> (u < 2 ^ 128 \<and> id' R < 2 ^ 128 \<and> u \<noteq> id' R
        \<longrightarrow> payload (R\<lparr>id' := u\<rparr>) \<noteq> payload R)
   \<and> (calc_etag (R\<lparr>id' := u\<rparr>) = calc_etag R
        \<longleftrightarrow> sha256 (encode_utf8 (payload (R\<lparr>id' := u\<rparr>))) = sha256 (encode_utf8 (payload R)))"
proof (intro conjI impI)
  assume "TheatreCreate.truncate a = TheatreCreate.truncate b \<and> id' a = id' b
      \<and> created_at a = created_at b \<and> updated_at a = updated_at b"
  then have "a = b"
    by (cases a, cases b) (simp add: TheatreCreate.truncate_def)
  then show "calc_etag a = calc_etag b" by simp
next
  assume "u < 2 ^ 128 \<and> id' R < 2 ^ 128 \<and> u \<noteq> id' R"
  then show "payload (R\<lparr>id' := u\<rparr>) \<noteq> payload R"
    using id_changes_payload [of u R] by blast
next
  show "calc_etag (R\<lparr>id' := u\<rparr>) = calc_etag R
        \<longleftrightarrow> sha256 (encode_utf8 (payload (R\<lparr>id' := u\<rparr>))) = sha256 (encode_utf8 (payload R))"
    by (rule calc_etag_eq_iff)
qed

theorem etag_addresses_whole_resource_witness:
  "TheatreCreate.truncate (TheatreRead_init 7 epoch epoch grand_cinema)
     = TheatreCreate.truncate ((TheatreRead_init 8 epoch epoch grand_cinema)\<lparr>id' := 7\<rparr>)
   \<and> calc_etag (TheatreRead_init 7 epoch epoch grand_cinema)
       = calc_etag ((TheatreRead_init 8 epoch epoch grand_cinema)\<lparr>id' := 7\<rparr>)
   \<and> (8::nat) < 2 ^ 128 \<and> id' (TheatreRead_init 7 epoch epoch grand_cinema) < 2 ^ 128
   \<and> 8 \<noteq> id' (TheatreRead_init 7 epoch epoch grand_cinema)
   \<and> payload ((TheatreRead_init 7 epoch epoch grand_cinema)\<lparr>id' := 8\<rparr>)
       \<noteq> payload (TheatreRead_init 7 epoch epoch grand_cinema)"
proof -
  let ?a = "TheatreRead_init 7 epoch epoch grand_cinema"
  let ?b = "(TheatreRead_init 8 epoch epoch grand_cinema)\<lparr>id' := 7\<rparr>"
  have same: "TheatreCreate.truncate ?a = TheatreCreate.truncate ?b \<and> id' ?a = id' ?b
      \<and> created_at ?a = created_at ?b \<and> updated_at ?a = updated_at ?b"
    by (simp add: TheatreRead_init_def TheatreCreate.truncate_def)
  have other: "(8::nat) < 2 ^ 128 \<and> id' ?a < 2 ^ 128 \<and> 8 \<noteq> id' ?a"
    by (simp add: TheatreRead_init_def)
  from same other etag_addresses_whole_resource [where a = ?a and b = ?b and u = 8 and R = ?a]
  show ?thesis by blast
qed

lemma finite_strong_etags: "finite {e. is_strong_etag e}"
proof -
  have "{e. is_strong_etag e} \<subseteq> {e. set e \<subseteq> (UNIV :: char set) \<and> length e = 66}"
    by (auto simp add: is_strong_etag_def)
  moreover have "finite {e. set e \<subseteq> (UNIV :: char set) \<and> length e = 66}"
    by (rule finite_lists_length_eq) simp
  ultimately show ?thesis by (rule finite_subset)
qed

text \<open>
  A digest of 256 bits cannot tell all theatre values apart: there are infinitely many names
  and finitely many ETags, so some two values that differ in their name have the same ETag.
  Change sensitivity can therefore hold only up to collisions of SHA-256.
\<close>

lemma etag_not_injective:
  "\<not> (\<forall>R v. v \<noteq> name R \<longrightarrow> calc_etag (R\<lparr>name := v\<rparr>) \<noteq> calc_etag R)"
proof
  assume sens: "\<forall>R v. v \<noteq> name R \<longrightarrow> calc_etag (R\<lparr>name := v\<rparr>) \<noteq> calc_etag R"
  let ?R = "TheatreRead_init 7 epoch epoch grand_cinema"
  let ?f = "\<lambda>n. calc_etag (?R\<lparr>name := n\<rparr>)"
  have "inj ?f"
  proof (rule injI)
    fix n m
    assume eq: "?f n = ?f m"
    show "n = m"
    proof (rule ccontr)
      assume "n \<noteq> m"
      then have "n \<noteq> name (?R\<lparr>name := m\<rparr>)" by simp
      with sens have "calc_etag (?R\<lparr>name := m\<rparr>\<lparr>name := n\<rparr>) \<noteq> calc_etag (?R\<lparr>name := m\<rparr>)"
        by blast
      with eq show False by simp
    qed
  qed
  moreover have "finite (range ?f)"
  proof (rule finite_subset)
    show "range ?f \<subseteq> {e. is_strong_etag e}"
      using is_strong_etag_calc_etag by blast
    show "finite {e. is_strong_etag e}" by (rule finite_strong_etags)
  qed
  ultimately have "finite (UNIV :: string set)"
    by (rule finite_imageD [rotated])
  then show False
    using infinite_UNIV_listI by blast
qed



end
